theory Spec2Isabelle
  imports Main
begin

section \<open>Package config: configuration loaded from the process environment\<close>

text \<open>
  The Go source is \<^verbatim>\<open>internal/config/config.go\<close>. Everything \<^verbatim>\<open>Load\<close> reads from
  outside the program is collected in one record: the environment variables, whether
  \<^verbatim>\<open>os.Stat("/.dockerenv")\<close> succeeds, and the path that
  \<^verbatim>\<open>filepath.Join(xdg.DataHome, "skopos", "tsnet")\<close> evaluates to.
\<close>

record os_env =
  environ :: "string \<rightharpoonup> string"
  dockerenv_exists :: bool
  xdg_tsnet_dir :: string

text \<open>\<^verbatim>\<open>os.Getenv\<close> returns the empty string for a variable that is not set.\<close>

definition Getenv :: "os_env \<Rightarrow> string \<Rightarrow> string" where
  "Getenv os key = (case environ os key of None \<Rightarrow> [] | Some v \<Rightarrow> v)"

text \<open>A \<^verbatim>\<open>time.Duration\<close> is a signed count of nanoseconds.\<close>

type_synonym duration = int

definition Second :: duration where
  "Second = 1000000000"

record TailscaleConfig =
  AuthKey :: string
  Hostname :: string
  StateDir :: string

record HealthCheckConfig =
  Interval :: duration
  Timeout :: duration
  UnhealthyThreshold :: int

record DNSConfig =
  UpdateTimeout :: duration

record Config =
  Tailscale :: TailscaleConfig
  HealthCheck :: HealthCheckConfig
  DNS :: DNSConfig
  Development :: bool

text \<open>The two error returns of \<^verbatim>\<open>Load\<close>, in the order of the source.\<close>

datatype config_error = StateDirFailed | AuthKeyRequired

subsection \<open>The standard library's parsers\<close>

text \<open>
  \<^verbatim>\<open>strconv.Atoi(s)\<close> is \<^verbatim>\<open>ParseInt(s, 10, 0)\<close>: an optional sign \<^verbatim>\<open>+\<close> or
  \<^verbatim>\<open>-\<close>, then one or more decimal digits and nothing else; the value must fit the
  (64-bit) \<^verbatim>\<open>int\<close>. Any other string gives an error, here \<open>None\<close>; the
  caller below reads the value only when the error is nil.
\<close>

definition is_digit :: "char \<Rightarrow> bool" where
  "is_digit c = (48 \<le> (of_char c :: nat) \<and> (of_char c :: nat) \<le> 57)"

definition digits_value :: "string \<Rightarrow> int" where
  "digits_value ds = foldl (\<lambda>acc c. 10 * acc + (of_char c - 48)) 0 ds"

definition Atoi :: "string \<Rightarrow> int option" where
  "Atoi s =
     (let neg = (s \<noteq> [] \<and> hd s = CHR ''-'');
          ds = (if s \<noteq> [] \<and> (hd s = CHR ''-'' \<or> hd s = CHR ''+'') then tl s else s)
      in if ds = [] \<or> \<not> list_all is_digit ds then None
         else let v = (if neg then - digits_value ds else digits_value ds)
              in if v < - (2 ^ 63) \<or> 2 ^ 63 - 1 < v then None else Some v)"

text \<open>
  \<^verbatim>\<open>time.ParseDuration\<close> is a parameter of the model: a function from the string to
  the parsed duration, \<open>None\<close> when the library returns an error. The theorems hold
  for every such function.
\<close>

type_synonym duration_parser = "string \<Rightarrow> duration option"

subsection \<open>The helpers of \<^verbatim>\<open>Load\<close>\<close>

definition isRunningInContainer :: "os_env \<Rightarrow> bool" where
  "isRunningInContainer os =
     (if dockerenv_exists os then True
      else if Getenv os ''container'' \<noteq> [] then True
      else False)"

definition determineStateDir :: "os_env \<Rightarrow> bool \<Rightarrow> config_error + string" where
  "determineStateDir os development =
     (if development then Inr ''./tsnet.tmp/''
      else if isRunningInContainer os then Inr ''/data''
      else Inr (xdg_tsnet_dir os))"

definition getEnvOrDefault :: "os_env \<Rightarrow> string \<Rightarrow> string \<Rightarrow> string" where
  "getEnvOrDefault os key defaultValue =
     (let v = Getenv os key in if v \<noteq> [] then v else defaultValue)"

definition getDurationOrDefault ::
  "duration_parser \<Rightarrow> os_env \<Rightarrow> string \<Rightarrow> duration \<Rightarrow> duration" where
  "getDurationOrDefault ParseDuration os key defaultValue =
     (let v = Getenv os key in
      if v \<noteq> [] then
        (case ParseDuration v of Some d \<Rightarrow> d | None \<Rightarrow> defaultValue)
      else defaultValue)"

definition getIntOrDefault :: "os_env \<Rightarrow> string \<Rightarrow> int \<Rightarrow> int" where
  "getIntOrDefault os key defaultValue =
     (let v = Getenv os key in
      if v \<noteq> [] then
        (case Atoi v of Some i \<Rightarrow> i | None \<Rightarrow> defaultValue)
      else defaultValue)"

subsection \<open>\<^verbatim>\<open>Load\<close>\<close>

definition Load :: "duration_parser \<Rightarrow> os_env \<Rightarrow> config_error + Config" where
  "Load ParseDuration os =
     (let development = (Getenv os ''DEVEL'' = ''true'');
          authKey = Getenv os ''TS_AUTHKEY'';
          hostname = getEnvOrDefault os ''TS_HOSTNAME'' ''skopos-dnsmon''
      in case determineStateDir os development of
           Inl e \<Rightarrow> Inl StateDirFailed
         | Inr stateDir \<Rightarrow>
             (let cfg =
                \<lparr> Tailscale =
                    \<lparr> AuthKey = authKey,
                      Hostname = hostname,
                      StateDir = getEnvOrDefault os ''TS_STATE_DIR'' stateDir \<rparr>,
                  HealthCheck =
                    \<lparr> Interval =
                        getDurationOrDefault ParseDuration os ''HEALTH_CHECK_INTERVAL'' (20 * Second),
                      Timeout =
                        getDurationOrDefault ParseDuration os ''HEALTH_CHECK_TIMEOUT'' (5 * Second),
                      UnhealthyThreshold = getIntOrDefault os ''UNHEALTHY_THRESHOLD'' 1 \<rparr>,
                  DNS =
                    \<lparr> UpdateTimeout =
                        getDurationOrDefault ParseDuration os ''DNS_UPDATE_TIMEOUT'' (10 * Second) \<rparr>,
                  Development = development \<rparr>
              in if authKey = [] then Inl AuthKeyRequired else Inr cfg))"

subsection \<open>Invalid values\<close>

text \<open>
  An optional variable holds an invalid value when it is set to a non-empty string that
  its parser rejects.
\<close>

definition invalid_duration :: "duration_parser \<Rightarrow> os_env \<Rightarrow> string \<Rightarrow> bool" where
  "invalid_duration ParseDuration os key =
     (Getenv os key \<noteq> [] \<and> ParseDuration (Getenv os key) = None)"

definition invalid_int :: "os_env \<Rightarrow> string \<Rightarrow> bool" where
  "invalid_int os key = (Getenv os key \<noteq> [] \<and> Atoi (Getenv os key) = None)"

section \<open>Package tailscale: the wrapper around the tsnet server\<close>

text \<open>
  The Go source is \<^verbatim>\<open>internal/tailscale/server.go\<close>. The tsnet server, its local
  client and the context are libraries outside the repository: what their calls return
  is an input of the model, and the calls made on the tsnet server are recorded in its
  state. Log output is not modelled, so the logger fields are left out.
\<close>

type_synonym lib_error = string

text \<open>
  A \<^verbatim>\<open>netip.Addr\<close> as the source uses it: \<^verbatim>\<open>Is4\<close>, \<^verbatim>\<open>Is6\<close> and
  \<^verbatim>\<open>String\<close>. The zero address is neither.
\<close>

datatype ip_addr = IPv4 string | IPv6 string | ZeroAddr

definition Is4 :: "ip_addr \<Rightarrow> bool" where
  "Is4 ip = (case ip of IPv4 _ \<Rightarrow> True | _ \<Rightarrow> False)"

definition Is6 :: "ip_addr \<Rightarrow> bool" where
  "Is6 ip = (case ip of IPv6 _ \<Rightarrow> True | _ \<Rightarrow> False)"

definition ip_String :: "ip_addr \<Rightarrow> string" where
  "ip_String ip = (case ip of IPv4 s \<Rightarrow> s | IPv6 s \<Rightarrow> s | ZeroAddr \<Rightarrow> ''invalid IP'')"

record PeerStatus =
  TailscaleIPs :: "ip_addr list"

record Status =
  BackendState :: string
  Self :: "PeerStatus option"

text \<open>\<^verbatim>\<open>ipn.Running.String()\<close>.\<close>

definition Running :: string where
  "Running = ''Running''"

datatype tsnet_call = LocalClientCall | CloseCall

record tsnet_Server =
  tsnet_Hostname :: string
  tsnet_Dir :: string
  tsnet_AuthKey :: string
  tsnet_Ephemeral :: bool
  tsnet_calls :: "tsnet_call list"

text \<open>
  The two local clients the source holds: the empty \<^verbatim>\<open>&local.Client{}\<close> that
  \<^verbatim>\<open>New\<close> stores, and the one the tsnet server hands out.
\<close>

datatype local_client = EmptyClient | TsnetClient

datatype ctx_error = Canceled | DeadlineExceeded

text \<open>
  A context, as \<^verbatim>\<open>Start\<close> polls it: at the \<open>k\<close>-th pass through the
  \<^verbatim>\<open>select\<close>, \<open>None\<close> when \<^verbatim>\<open>ctx.Done()\<close> is not ready, otherwise
  \<^verbatim>\<open>ctx.Err()\<close>.
\<close>

type_synonym Context = "nat \<Rightarrow> ctx_error option"

definition Background :: Context where
  "Background = (\<lambda>k. None)"

text \<open>
  What the tsnet library answers: the result of \<^verbatim>\<open>server.LocalClient()\<close>, and of
  the \<open>k\<close>-th call of \<^verbatim>\<open>StatusWithoutPeers\<close> (counted from 0).
\<close>

record tsnet_responses =
  LocalClient_result :: "lib_error + local_client"
  StatusWithoutPeers_result :: "nat \<Rightarrow> lib_error + Status"

datatype ts_error =
    MkdirFailed lib_error
  | AlreadyStarted
  | LocalClientFailed lib_error
  | StatusFailed lib_error
  | ContextDone ctx_error
  | CloseFailed lib_error

record Server =
  server :: tsnet_Server
  localClient :: local_client
  hostname :: string
  stateDir :: string
  started :: bool
  tailscaleIP :: string
  tailscaleIPv6 :: string

record ServerConfig =
  cfg_Hostname :: string
  cfg_StateDir :: string
  cfg_AuthKey :: string
  cfg_Ephemeral :: bool

subsection \<open>\<^verbatim>\<open>New\<close>\<close>

text \<open>The first argument is the result of \<^verbatim>\<open>os.MkdirAll(cfg.StateDir, 0700)\<close>.\<close>

definition New :: "lib_error option \<Rightarrow> ServerConfig \<Rightarrow> ts_error + Server" where
  "New MkdirAll_result cfg =
     (case MkdirAll_result of
        Some e \<Rightarrow> Inl (MkdirFailed e)
      | None \<Rightarrow>
          Inr \<lparr> server =
                  \<lparr> tsnet_Hostname = cfg_Hostname cfg,
                    tsnet_Dir = cfg_StateDir cfg,
                    tsnet_AuthKey = cfg_AuthKey cfg,
                    tsnet_Ephemeral = cfg_Ephemeral cfg,
                    tsnet_calls = [] \<rparr>,
                localClient = EmptyClient,
                hostname = cfg_Hostname cfg,
                stateDir = cfg_StateDir cfg,
                started = False,
                tailscaleIP = [],
                tailscaleIPv6 = [] \<rparr>)"

subsection \<open>\<^verbatim>\<open>Start\<close>\<close>

text \<open>
  The wait loop of \<^verbatim>\<open>Start\<close>. \<open>k\<close> is the index of the status call that produced
  \<open>status\<close>. The loop has no bound in the source: it runs until the backend reports
  \<^verbatim>\<open>Running\<close>, the context is done, or a status call fails. \<open>None\<close> is the run
  that never leaves the loop.
\<close>

partial_function (option) waitRunning ::
  "tsnet_responses \<Rightarrow> Context \<Rightarrow> nat \<Rightarrow> Status \<Rightarrow> (ts_error + Status) option" where
  "waitRunning r ctx k status =
     (if BackendState status = Running then Some (Inr status)
      else case ctx k of
             Some e \<Rightarrow> Some (Inl (ContextDone e))
           | None \<Rightarrow>
               (case StatusWithoutPeers_result r (Suc k) of
                  Inl e \<Rightarrow> Some (Inl (StatusFailed e))
                | Inr status' \<Rightarrow> waitRunning r ctx (Suc k) status'))"

declare waitRunning.simps [code]

text \<open>One pass of the loop over \<^verbatim>\<open>status.Self.TailscaleIPs\<close>.\<close>

definition recordIP :: "Server \<Rightarrow> ip_addr \<Rightarrow> Server" where
  "recordIP s ip =
     (if Is4 ip then s\<lparr>tailscaleIP := ip_String ip\<rparr>
      else if Is6 ip then s\<lparr>tailscaleIPv6 := ip_String ip\<rparr>
      else s)"

definition recordIPs :: "Server \<Rightarrow> Status \<Rightarrow> Server" where
  "recordIPs s status =
     (case Self status of
        None \<Rightarrow> s
      | Some self \<Rightarrow>
          if length (TailscaleIPs self) > 0 then foldl recordIP s (TailscaleIPs self) else s)"

definition called :: "tsnet_call \<Rightarrow> Server \<Rightarrow> Server" where
  "called c s = s\<lparr>server := (server s)\<lparr>tsnet_calls := tsnet_calls (server s) @ [c]\<rparr>\<rparr>"

text \<open>
  \<^verbatim>\<open>Start\<close> returns the error (\<open>None\<close> for nil) and the server as it leaves it;
  the outer \<open>None\<close> is the call that never returns.
\<close>

definition Start ::
  "tsnet_responses \<Rightarrow> Context \<Rightarrow> Server \<Rightarrow> (ts_error option \<times> Server) option" where
  "Start r ctx s =
     (if started s then Some (Some AlreadyStarted, s)
      else
        let s1 = called LocalClientCall s in
        case LocalClient_result r of
          Inl e \<Rightarrow> Some (Some (LocalClientFailed e), s1)
        | Inr lc \<Rightarrow>
            (let s2 = s1\<lparr>localClient := lc\<rparr> in
             case StatusWithoutPeers_result r 0 of
               Inl e \<Rightarrow> Some (Some (StatusFailed e), s2)
             | Inr status0 \<Rightarrow>
                 (case waitRunning r ctx 0 status0 of
                    None \<Rightarrow> None
                  | Some (Inl e) \<Rightarrow> Some (Some e, s2)
                  | Some (Inr status) \<Rightarrow>
                      Some (None, (recordIPs s2 status)\<lparr>started := True\<rparr>))))"

text \<open>
  The errors of the three failing paths of \<^verbatim>\<open>Start\<close> on a server that was not
  started: the local client, a status call, the context.
\<close>

definition start_failure :: "ts_error \<Rightarrow> bool" where
  "start_failure e =
     (case e of
        LocalClientFailed _ \<Rightarrow> True
      | StatusFailed _ \<Rightarrow> True
      | ContextDone _ \<Rightarrow> True
      | _ \<Rightarrow> False)"

text \<open>
  A backend that never gets running: every status call succeeds and reports a state
  other than \<^verbatim>\<open>Running\<close>.
\<close>

definition never_running :: "tsnet_responses \<Rightarrow> bool" where
  "never_running r =
     (\<forall>k. \<exists>st. StatusWithoutPeers_result r k = Inr st \<and> BackendState st \<noteq> Running)"

subsection \<open>\<^verbatim>\<open>Close\<close>\<close>

text \<open>
  The first argument is what \<^verbatim>\<open>s.server.Close()\<close> returns if it is called.
\<close>

definition Close :: "lib_error option \<Rightarrow> Server \<Rightarrow> ts_error option \<times> Server" where
  "Close Close_result s =
     (if \<not> started s then (None, s)
      else
        let s1 = called CloseCall s in
        case Close_result of
          Some e \<Rightarrow> (Some (CloseFailed e), s1)
        | None \<Rightarrow> (None, s1\<lparr>started := False\<rparr>))"

section \<open>Command dnsmon\<close>

text \<open>
  The Go source is \<^verbatim>\<open>cmd/dnsmon/dnsmon.go\<close>. The world of one run of the process:
  the environment, the library results, and the first signal delivered to
  \<^verbatim>\<open>sigChan\<close> (\<open>None\<close> when none ever arrives). The result of \<open>main\<close> is the
  exit code of the process: 5 from \<^verbatim>\<open>os.Exit(5)\<close>, 0 when \<^verbatim>\<open>main\<close> returns,
  \<open>None\<close> when the process never exits.
\<close>

datatype signal = Interrupt | SIGTERM | SIGQUIT

record world =
  process_env :: os_env
  MkdirAll_result :: "lib_error option"
  tsnet :: tsnet_responses
  sigChan :: "signal option"
  tsnet_Close_result :: "lib_error option"

text \<open>The \<^verbatim>\<open>tailscale.Config\<close> literal that \<^verbatim>\<open>main\<close> passes to \<^verbatim>\<open>New\<close>.\<close>

definition main_ServerConfig :: "Config \<Rightarrow> ServerConfig" where
  "main_ServerConfig cfg =
     \<lparr> cfg_Hostname = Hostname (Tailscale cfg),
       cfg_StateDir = StateDir (Tailscale cfg),
       cfg_AuthKey = AuthKey (Tailscale cfg),
       cfg_Ephemeral = False \<rparr>"

definition main :: "duration_parser \<Rightarrow> world \<Rightarrow> nat option" where
  "main ParseDuration w =
     (case Load ParseDuration (process_env w) of
        Inl err \<Rightarrow> Some 5
      | Inr cfg \<Rightarrow>
          (case New (MkdirAll_result w) (main_ServerConfig cfg) of
             Inl err \<Rightarrow> Some 5
           | Inr ts \<Rightarrow>
               (case Start (tsnet w) Background ts of
                  None \<Rightarrow> None
                | Some (Some err, ts') \<Rightarrow> Some 5
                | Some (None, ts') \<Rightarrow>
                    (case sigChan w of
                       None \<Rightarrow> None
                     | Some sig \<Rightarrow>
                         (case Close (tsnet_Close_result w) ts' of
                            (Some err, ts'') \<Rightarrow> Some 0
                          | (None, ts'') \<Rightarrow> Some 0)))))"

section \<open>Concrete runs\<close>

text \<open>
  The inputs at which the theorems below are evaluated. \<open>sample_parser\<close> stands in
  for \<^verbatim>\<open>time.ParseDuration\<close> there: it knows three duration strings, with the values
  the library gives them, and is otherwise applied only to strings the library rejects
  (they do not start with a sign, a digit or a point).
\<close>

definition sample_parser :: duration_parser where
  "sample_parser =
     map_of [(''30s'', 30 * Second), (''1m'', 60 * Second), (''250ms'', 250000000)]"

definition env_of :: "(string \<times> string) list \<Rightarrow> os_env" where
  "env_of vars =
     \<lparr> environ = map_of vars,
       dockerenv_exists = False,
       xdg_tsnet_dir = ''/home/dnsmon/.local/share/skopos/tsnet'' \<rparr>"

definition env_invalid :: os_env where
  "env_invalid =
     env_of [(''TS_AUTHKEY'', ''tskey-auth-1''),
             (''HEALTH_CHECK_INTERVAL'', ''soon''),
             (''HEALTH_CHECK_TIMEOUT'', ''250ms''),
             (''UNHEALTHY_THRESHOLD'', ''three'')]"

definition env_zero :: os_env where
  "env_zero = env_of [(''TS_AUTHKEY'', ''tskey-auth-1''), (''UNHEALTHY_THRESHOLD'', ''0'')]"

definition env_negative :: os_env where
  "env_negative = env_of [(''TS_AUTHKEY'', ''tskey-auth-1''), (''UNHEALTHY_THRESHOLD'', ''-3'')]"

definition env_minimal :: os_env where
  "env_minimal = env_of [(''TS_AUTHKEY'', ''tskey-auth-1'')]"

definition env_no_key :: os_env where
  "env_no_key = env_of [(''UNHEALTHY_THRESHOLD'', ''3'')]"

text \<open>
  A tsnet backend that reports \<^verbatim>\<open>Starting\<close> twice and then \<^verbatim>\<open>Running\<close> with
  two addresses; one whose third status call fails; one that never gets running.
\<close>

definition status_starting :: Status where
  "status_starting = \<lparr> BackendState = ''Starting'', Self = None \<rparr>"

definition status_running :: Status where
  "status_running =
     \<lparr> BackendState = ''Running'',
       Self = Some \<lparr> TailscaleIPs = [IPv4 ''100.64.0.7'', IPv6 ''fd7a:115c:a1e0::7''] \<rparr> \<rparr>"

definition tsnet_good :: tsnet_responses where
  "tsnet_good =
     \<lparr> LocalClient_result = Inr TsnetClient,
       StatusWithoutPeers_result = (\<lambda>k. if k < 2 then Inr status_starting else Inr status_running) \<rparr>"

definition tsnet_status_fails :: tsnet_responses where
  "tsnet_status_fails =
     \<lparr> LocalClient_result = Inr TsnetClient,
       StatusWithoutPeers_result =
         (\<lambda>k. if k < 2 then Inr status_starting else Inl ''connection refused'') \<rparr>"

definition tsnet_no_client :: tsnet_responses where
  "tsnet_no_client =
     \<lparr> LocalClient_result = Inl ''tsnet: no auth key'',
       StatusWithoutPeers_result = (\<lambda>k. Inr status_running) \<rparr>"

definition tsnet_stuck :: tsnet_responses where
  "tsnet_stuck =
     \<lparr> LocalClient_result = Inr TsnetClient,
       StatusWithoutPeers_result = (\<lambda>k. Inr status_starting) \<rparr>"

text \<open>A context that is cancelled from the second pass of the wait loop on.\<close>

definition ctx_cancelled :: Context where
  "ctx_cancelled = (\<lambda>k. if k < 1 then None else Some Canceled)"

definition fresh_server :: Server where
  "fresh_server =
     \<lparr> server =
         \<lparr> tsnet_Hostname = ''skopos-dnsmon'',
           tsnet_Dir = ''/data'',
           tsnet_AuthKey = ''tskey-auth-1'',
           tsnet_Ephemeral = False,
           tsnet_calls = [] \<rparr>,
       localClient = EmptyClient,
       hostname = ''skopos-dnsmon'',
       stateDir = ''/data'',
       started = False,
       tailscaleIP = [],
       tailscaleIPv6 = [] \<rparr>"

definition running_server :: Server where
  "running_server =
     fresh_server
       \<lparr> server := (server fresh_server)\<lparr>tsnet_calls := [LocalClientCall]\<rparr>,
         localClient := TsnetClient,
         started := True,
         tailscaleIP := ''100.64.0.7'',
         tailscaleIPv6 := ''fd7a:115c:a1e0::7'' \<rparr>"

definition world_of ::
  "os_env \<Rightarrow> lib_error option \<Rightarrow> tsnet_responses \<Rightarrow> signal option \<Rightarrow> world" where
  "world_of e mk t sig =
     \<lparr> process_env = e,
       MkdirAll_result = mk,
       tsnet = t,
       sigChan = sig,
       tsnet_Close_result = None \<rparr>"

text \<open>The run that shuts down on \<^verbatim>\<open>SIGQUIT\<close> and whose tsnet server fails to close.\<close>

definition world_close_fails :: world where
  "world_close_fails =
     (world_of env_minimal None tsnet_good (Some SIGQUIT))
       \<lparr> tsnet_Close_result := Some ''close: timeout'' \<rparr>"

section \<open>Properties\<close>

subsection \<open>Configuration loading\<close>

lemmas env_defs = env_of_def env_invalid_def env_zero_def env_negative_def env_minimal_def
  env_no_key_def Getenv_def

lemmas helper_defs = getEnvOrDefault_def getDurationOrDefault_def getIntOrDefault_def
  determineStateDir_def isRunningInContainer_def

lemma Atoi_empty: "Atoi [] = None"
  by (simp add: Atoi_def)

lemma Atoi_range: "Atoi s = Some i \<Longrightarrow> - (2 ^ 63) \<le> i \<and> i < 2 ^ 63"
  by (auto simp: Atoi_def Let_def split: if_splits)

text \<open>\<^verbatim>\<open>determineStateDir\<close> has an error result in its type and never returns one.\<close>

lemma determineStateDir_ok: "\<exists>d. determineStateDir os dev = Inr d"
  by (simp add: determineStateDir_def)

lemma Load_without_key: "Getenv os ''TS_AUTHKEY'' = [] \<Longrightarrow> Load pd os = Inl AuthKeyRequired"
  by (simp add: Load_def Let_def determineStateDir_def)

lemma Load_with_key:
  assumes "Getenv os ''TS_AUTHKEY'' \<noteq> []"
  shows "\<exists>cfg. Load pd os = Inr cfg
    \<and> Interval (HealthCheck cfg) = getDurationOrDefault pd os ''HEALTH_CHECK_INTERVAL'' (20 * Second)
    \<and> Timeout (HealthCheck cfg) = getDurationOrDefault pd os ''HEALTH_CHECK_TIMEOUT'' (5 * Second)
    \<and> UnhealthyThreshold (HealthCheck cfg) = getIntOrDefault os ''UNHEALTHY_THRESHOLD'' 1
    \<and> UpdateTimeout (DNS cfg) = getDurationOrDefault pd os ''DNS_UPDATE_TIMEOUT'' (10 * Second)"
  using assms by (simp add: Load_def Let_def determineStateDir_def)

lemma Load_threshold_field:
  assumes "Load pd os = Inr cfg"
  shows "UnhealthyThreshold (HealthCheck cfg) = getIntOrDefault os ''UNHEALTHY_THRESHOLD'' 1"
  using assms by (auto simp: Load_def Let_def determineStateDir_def split: if_splits)

lemma getIntOrDefault_Atoi:
  "getIntOrDefault os key d = (case Atoi (Getenv os key) of Some i \<Rightarrow> i | None \<Rightarrow> d)"
  by (simp add: getIntOrDefault_def Let_def Atoi_empty)

lemma getDurationOrDefault_invalid:
  "invalid_duration pd os key \<Longrightarrow> getDurationOrDefault pd os key d = d"
  by (simp add: getDurationOrDefault_def invalid_duration_def)

lemma getDurationOrDefault_unset:
  "Getenv os key = [] \<Longrightarrow> getDurationOrDefault pd os key d = d"
  by (simp add: getDurationOrDefault_def)

lemma getIntOrDefault_invalid:
  "invalid_int os key \<Longrightarrow> getIntOrDefault os key d = d"
  by (simp add: getIntOrDefault_def invalid_int_def)

lemma getIntOrDefault_unset:
  "Getenv os key = [] \<Longrightarrow> getIntOrDefault os key d = d"
  by (simp add: getIntOrDefault_def)

text \<open>
  Claim C3, as stated: whenever a configuration input holds an invalid value, or the
  required one is missing, \<^verbatim>\<open>Load\<close> returns an error. It fails: with
  \<^verbatim>\<open>HEALTH_CHECK_INTERVAL=soon\<close> and \<^verbatim>\<open>UNHEALTHY_THRESHOLD=three\<close>, both invalid,
  \<^verbatim>\<open>Load\<close> returns a configuration that holds the defaults 20 s and 1 in their place.
\<close>

theorem Load_invalid_values_counterexample:
  "invalid_duration sample_parser env_invalid ''HEALTH_CHECK_INTERVAL''
   \<and> invalid_int env_invalid ''UNHEALTHY_THRESHOLD''
   \<and> Load sample_parser env_invalid =
       Inr \<lparr> Tailscale =
               \<lparr> AuthKey = ''tskey-auth-1'',
                 Hostname = ''skopos-dnsmon'',
                 StateDir = ''/home/dnsmon/.local/share/skopos/tsnet'' \<rparr>,
             HealthCheck =
               \<lparr> Interval = 20000000000, Timeout = 250000000, UnhealthyThreshold = 1 \<rparr>,
             DNS = \<lparr> UpdateTimeout = 10000000000 \<rparr>,
             Development = False \<rparr>"
  by (simp add: invalid_duration_def invalid_int_def env_defs sample_parser_def Atoi_def
      is_digit_def Load_def helper_defs Second_def)

text \<open>
  Claim C3, amended: \<^verbatim>\<open>Load\<close> returns an error when the required \<^verbatim>\<open>TS_AUTHKEY\<close>
  is unset or empty, and only then. An invalid value of an optional variable is not an
  error: \<^verbatim>\<open>Load\<close> succeeds and the field holds that variable's default (20 s, 5 s, 1
  and 10 s).
\<close>

theorem Load_error_iff_no_auth_key:
  "(Getenv os ''TS_AUTHKEY'' = [] \<longrightarrow> Load pd os = Inl AuthKeyRequired) \<and>
   (Getenv os ''TS_AUTHKEY'' \<noteq> [] \<longrightarrow>
      (\<exists>cfg. Load pd os = Inr cfg
         \<and> (invalid_duration pd os ''HEALTH_CHECK_INTERVAL'' \<longrightarrow>
              Interval (HealthCheck cfg) = 20 * Second)
         \<and> (invalid_duration pd os ''HEALTH_CHECK_TIMEOUT'' \<longrightarrow>
              Timeout (HealthCheck cfg) = 5 * Second)
         \<and> (invalid_int os ''UNHEALTHY_THRESHOLD'' \<longrightarrow>
              UnhealthyThreshold (HealthCheck cfg) = 1)
         \<and> (invalid_duration pd os ''DNS_UPDATE_TIMEOUT'' \<longrightarrow>
              UpdateTimeout (DNS cfg) = 10 * Second)))"
proof (intro conjI impI)
  assume "Getenv os ''TS_AUTHKEY'' = []"
  then show "Load pd os = Inl AuthKeyRequired" by (rule Load_without_key)
next
  assume "Getenv os ''TS_AUTHKEY'' \<noteq> []"
  from Load_with_key [OF this] obtain cfg where
    "Load pd os = Inr cfg"
    "Interval (HealthCheck cfg) = getDurationOrDefault pd os ''HEALTH_CHECK_INTERVAL'' (20 * Second)"
    "Timeout (HealthCheck cfg) = getDurationOrDefault pd os ''HEALTH_CHECK_TIMEOUT'' (5 * Second)"
    "UnhealthyThreshold (HealthCheck cfg) = getIntOrDefault os ''UNHEALTHY_THRESHOLD'' 1"
    "UpdateTimeout (DNS cfg) = getDurationOrDefault pd os ''DNS_UPDATE_TIMEOUT'' (10 * Second)"
    by blast
  then show "\<exists>cfg. Load pd os = Inr cfg
         \<and> (invalid_duration pd os ''HEALTH_CHECK_INTERVAL'' \<longrightarrow>
              Interval (HealthCheck cfg) = 20 * Second)
         \<and> (invalid_duration pd os ''HEALTH_CHECK_TIMEOUT'' \<longrightarrow>
              Timeout (HealthCheck cfg) = 5 * Second)
         \<and> (invalid_int os ''UNHEALTHY_THRESHOLD'' \<longrightarrow>
              UnhealthyThreshold (HealthCheck cfg) = 1)
         \<and> (invalid_duration pd os ''DNS_UPDATE_TIMEOUT'' \<longrightarrow>
              UpdateTimeout (DNS cfg) = 10 * Second)"
    by (simp add: getDurationOrDefault_invalid getIntOrDefault_invalid)
qed

text \<open>
  The amended C3 at two environments: one without \<^verbatim>\<open>TS_AUTHKEY\<close>, and the one with
  the two invalid values.
\<close>

theorem Load_error_iff_no_auth_key_witness:
  "Load sample_parser env_no_key = Inl AuthKeyRequired \<and>
   (\<exists>cfg. Load sample_parser env_invalid = Inr cfg
      \<and> Interval (HealthCheck cfg) = 20000000000
      \<and> UnhealthyThreshold (HealthCheck cfg) = 1)"
proof -
  have a: "Getenv env_no_key ''TS_AUTHKEY'' = []"
    and b: "Getenv env_invalid ''TS_AUTHKEY'' \<noteq> []"
    and c: "invalid_duration sample_parser env_invalid ''HEALTH_CHECK_INTERVAL''"
    and d: "invalid_int env_invalid ''UNHEALTHY_THRESHOLD''"
    by (simp_all add: env_defs invalid_duration_def invalid_int_def sample_parser_def Atoi_def
        is_digit_def)
  from Load_error_iff_no_auth_key [of env_no_key sample_parser] a
  have 1: "Load sample_parser env_no_key = Inl AuthKeyRequired" by blast
  from Load_error_iff_no_auth_key [of env_invalid sample_parser] b c d
  have 2: "\<exists>cfg. Load sample_parser env_invalid = Inr cfg
      \<and> Interval (HealthCheck cfg) = 20 * Second
      \<and> UnhealthyThreshold (HealthCheck cfg) = 1" by blast
  from 1 2 show ?thesis by (simp add: Second_def)
qed

text \<open>
  Claim C4, as stated: whenever \<^verbatim>\<open>Load\<close> succeeds, \<^verbatim>\<open>UnhealthyThreshold\<close> is at
  least 1. It fails: \<^verbatim>\<open>UNHEALTHY_THRESHOLD=0\<close> and \<^verbatim>\<open>UNHEALTHY_THRESHOLD=-3\<close> are
  integers, \<^verbatim>\<open>Load\<close> succeeds and returns 0 and -3.
\<close>

theorem Load_threshold_below_one_counterexample:
  "(\<exists>cfg. Load sample_parser env_zero = Inr cfg \<and> UnhealthyThreshold (HealthCheck cfg) = 0) \<and>
   (\<exists>cfg. Load sample_parser env_negative = Inr cfg \<and> UnhealthyThreshold (HealthCheck cfg) = - 3)"
  by (simp add: env_defs Atoi_def is_digit_def digits_value_def Load_def helper_defs)

text \<open>
  Claim C4, amended: whenever \<^verbatim>\<open>Load\<close> succeeds, \<^verbatim>\<open>UnhealthyThreshold\<close> is the
  integer that \<^verbatim>\<open>UNHEALTHY_THRESHOLD\<close> holds, whatever its sign, when that is a decimal
  integer in the range of a 64-bit \<^verbatim>\<open>int\<close>, and 1 when the variable is unset, empty,
  not an integer or out of that range. It is at least 1 exactly when the variable does
  not hold such an integer below 1.
\<close>

theorem Load_UnhealthyThreshold_value:
  assumes "Load pd os = Inr cfg"
  shows "UnhealthyThreshold (HealthCheck cfg) =
           (case Atoi (Getenv os ''UNHEALTHY_THRESHOLD'') of Some i \<Rightarrow> i | None \<Rightarrow> 1)
       \<and> - (2 ^ 63) \<le> UnhealthyThreshold (HealthCheck cfg)
       \<and> UnhealthyThreshold (HealthCheck cfg) < 2 ^ 63
       \<and> (1 \<le> UnhealthyThreshold (HealthCheck cfg) \<longleftrightarrow>
            (\<forall>i. Atoi (Getenv os ''UNHEALTHY_THRESHOLD'') = Some i \<longrightarrow> 1 \<le> i))"
proof -
  have v: "UnhealthyThreshold (HealthCheck cfg) =
           (case Atoi (Getenv os ''UNHEALTHY_THRESHOLD'') of Some i \<Rightarrow> i | None \<Rightarrow> 1)"
    using Load_threshold_field [OF assms] by (simp add: getIntOrDefault_Atoi)
  have lo: "- (2 ^ 63) \<le> UnhealthyThreshold (HealthCheck cfg)"
    using v Atoi_range [of "Getenv os ''UNHEALTHY_THRESHOLD''"] by (auto split: option.splits)
  have hi: "UnhealthyThreshold (HealthCheck cfg) < 2 ^ 63"
    using v Atoi_range [of "Getenv os ''UNHEALTHY_THRESHOLD''"] by (auto split: option.splits)
  have pos: "1 \<le> UnhealthyThreshold (HealthCheck cfg) \<longleftrightarrow>
           (\<forall>i. Atoi (Getenv os ''UNHEALTHY_THRESHOLD'') = Some i \<longrightarrow> 1 \<le> i)"
    using v by (auto split: option.splits)
  from v lo hi pos show ?thesis by blast
qed

text \<open>
  The amended C4 at three environments: the threshold set to \<^verbatim>\<open>-3\<close>, set to
  \<^verbatim>\<open>three\<close>, and not set.
\<close>

theorem Load_UnhealthyThreshold_value_witness:
  "(\<exists>cfg. Load sample_parser env_negative = Inr cfg \<and> UnhealthyThreshold (HealthCheck cfg) = - 3
      \<and> \<not> 1 \<le> UnhealthyThreshold (HealthCheck cfg)) \<and>
   (\<exists>cfg. Load sample_parser env_invalid = Inr cfg \<and> UnhealthyThreshold (HealthCheck cfg) = 1) \<and>
   (\<exists>cfg. Load sample_parser env_minimal = Inr cfg \<and> UnhealthyThreshold (HealthCheck cfg) = 1)"
proof -
  have atoi: "Atoi (Getenv env_negative ''UNHEALTHY_THRESHOLD'') = Some (- 3)"
    "Atoi (Getenv env_invalid ''UNHEALTHY_THRESHOLD'') = None"
    "Atoi (Getenv env_minimal ''UNHEALTHY_THRESHOLD'') = None"
    by (simp_all add: env_defs Atoi_def is_digit_def digits_value_def)
  obtain c1 where c1: "Load sample_parser env_negative = Inr c1"
    using Load_with_key [of env_negative sample_parser] by (auto simp: env_defs)
  obtain c2 where c2: "Load sample_parser env_invalid = Inr c2"
    using Load_with_key [of env_invalid sample_parser] by (auto simp: env_defs)
  obtain c3 where c3: "Load sample_parser env_minimal = Inr c3"
    using Load_with_key [of env_minimal sample_parser] by (auto simp: env_defs)
  from Load_UnhealthyThreshold_value [OF c1] atoi(1)
  have "UnhealthyThreshold (HealthCheck c1) = - 3" by simp
  moreover from Load_UnhealthyThreshold_value [OF c2] atoi(2)
  have "UnhealthyThreshold (HealthCheck c2) = 1" by simp
  moreover from Load_UnhealthyThreshold_value [OF c3] atoi(3)
  have "UnhealthyThreshold (HealthCheck c3) = 1" by simp
  ultimately show ?thesis using c1 c2 c3 by simp
qed

text \<open>
  Claim C10: when \<^verbatim>\<open>TS_AUTHKEY\<close> is not empty and the four optional health-check and
  DNS variables are unset (\<^verbatim>\<open>os.Getenv\<close> gives the empty string for them),
  \<^verbatim>\<open>Load\<close> succeeds with \<^verbatim>\<open>Interval\<close> 20 s, \<^verbatim>\<open>Timeout\<close> 5 s,
  \<^verbatim>\<open>UnhealthyThreshold\<close> 1 and \<^verbatim>\<open>DNS.UpdateTimeout\<close> 10 s.
\<close>

theorem Load_defaults:
  assumes "Getenv os ''TS_AUTHKEY'' \<noteq> []"
    and "Getenv os ''HEALTH_CHECK_INTERVAL'' = []"
    and "Getenv os ''HEALTH_CHECK_TIMEOUT'' = []"
    and "Getenv os ''UNHEALTHY_THRESHOLD'' = []"
    and "Getenv os ''DNS_UPDATE_TIMEOUT'' = []"
  shows "\<exists>cfg. Load pd os = Inr cfg
    \<and> Interval (HealthCheck cfg) = 20 * Second
    \<and> Timeout (HealthCheck cfg) = 5 * Second
    \<and> UnhealthyThreshold (HealthCheck cfg) = 1
    \<and> UpdateTimeout (DNS cfg) = 10 * Second"
proof -
  from Load_with_key [OF assms(1)] obtain cfg where
    "Load pd os = Inr cfg"
    "Interval (HealthCheck cfg) = getDurationOrDefault pd os ''HEALTH_CHECK_INTERVAL'' (20 * Second)"
    "Timeout (HealthCheck cfg) = getDurationOrDefault pd os ''HEALTH_CHECK_TIMEOUT'' (5 * Second)"
    "UnhealthyThreshold (HealthCheck cfg) = getIntOrDefault os ''UNHEALTHY_THRESHOLD'' 1"
    "UpdateTimeout (DNS cfg) = getDurationOrDefault pd os ''DNS_UPDATE_TIMEOUT'' (10 * Second)"
    by blast
  with assms(2-5) show ?thesis
    by (simp add: getDurationOrDefault_unset getIntOrDefault_unset)
qed

text \<open>Claim C10 at the environment that sets \<^verbatim>\<open>TS_AUTHKEY\<close> and nothing else.\<close>

theorem Load_defaults_witness:
  "\<exists>cfg. Load sample_parser env_minimal = Inr cfg
    \<and> Interval (HealthCheck cfg) = 20000000000
    \<and> Timeout (HealthCheck cfg) = 5000000000
    \<and> UnhealthyThreshold (HealthCheck cfg) = 1
    \<and> UpdateTimeout (DNS cfg) = 10000000000"
proof -
  have "Getenv env_minimal ''TS_AUTHKEY'' \<noteq> []"
    and "Getenv env_minimal ''HEALTH_CHECK_INTERVAL'' = []"
    and "Getenv env_minimal ''HEALTH_CHECK_TIMEOUT'' = []"
    and "Getenv env_minimal ''UNHEALTHY_THRESHOLD'' = []"
    and "Getenv env_minimal ''DNS_UPDATE_TIMEOUT'' = []"
    by (simp_all add: env_defs)
  from Load_defaults [OF this, of sample_parser] show ?thesis
    by (simp add: Second_def)
qed

subsection \<open>The tsnet wrapper: \<^verbatim>\<open>Start\<close>\<close>

lemmas run_defs = tsnet_good_def tsnet_status_fails_def tsnet_no_client_def tsnet_stuck_def
  ctx_cancelled_def Background_def fresh_server_def running_server_def status_starting_def
  status_running_def Running_def called_def recordIPs_def recordIP_def Is4_def Is6_def
  ip_String_def

text \<open>
  What the wait loop can return: a status whose backend state is \<^verbatim>\<open>Running\<close>, the
  context's error, or the error of a status call.
\<close>

lemma waitRunning_result:
  assumes "waitRunning r ctx k status = Some res"
  shows "(\<forall>status'. res = Inr status' \<longrightarrow> BackendState status' = Running) \<and>
         (\<forall>e. res = Inl e \<longrightarrow> (\<exists>c. e = ContextDone c) \<or> (\<exists>m. e = StatusFailed m))"
  using assms
proof (induction rule: waitRunning.raw_induct [rotated 1, consumes 1, case_names step])
  case (step wait r ctx k status res)
  show ?case
  proof (cases "BackendState status = Running")
    case True
    with step(2) show ?thesis by auto
  next
    case False
    note not_running = this
    show ?thesis
    proof (cases "ctx k")
      case (Some c)
      with not_running step(2) show ?thesis by auto
    next
      case None
      show ?thesis
      proof (cases "StatusWithoutPeers_result r (Suc k)")
        case (Inl m)
        with None not_running step(2) show ?thesis by auto
      next
        case (Inr status')
        with None not_running step(2) have "wait r ctx (Suc k) status' = Some res" by simp
        then show ?thesis by (rule step(1))
      qed
    qed
  qed
qed

lemma waitRunning_error: "waitRunning r ctx k status = Some (Inl e) \<Longrightarrow> start_failure e"
  using waitRunning_result [of r ctx k status "Inl e"] by (auto simp: start_failure_def)

text \<open>
  The wait loop ends once the context is done, a status call fails or the backend
  reports \<^verbatim>\<open>Running\<close>, however many passes \<open>d\<close> that takes.
\<close>

lemma waitRunning_returns:
  assumes "ctx (k + d) \<noteq> None
           \<or> (\<exists>m. StatusWithoutPeers_result r (Suc (k + d)) = Inl m)
           \<or> (\<exists>st. StatusWithoutPeers_result r (Suc (k + d)) = Inr st \<and> BackendState st = Running)"
  shows "\<exists>res. waitRunning r ctx k status = Some res"
  using assms
proof (induction d arbitrary: k status)
  case 0
  show ?case
  proof (cases "StatusWithoutPeers_result r (Suc k)")
    case (Inl m)
    then show ?thesis by (subst waitRunning.simps) (simp split: option.splits)
  next
    case (Inr st)
    show ?thesis
    proof (cases "ctx k")
      case (Some c)
      then show ?thesis by (subst waitRunning.simps) simp
    next
      case None
      with 0 Inr have "BackendState st = Running" by simp
      then have "waitRunning r ctx (Suc k) st = Some (Inr st)"
        by (subst waitRunning.simps) simp
      with Inr None show ?thesis by (subst waitRunning.simps) simp
    qed
  qed
next
  case (Suc d)
  have step: "\<exists>res. waitRunning r ctx (Suc k) st = Some res" for st
    using Suc.prems by (intro Suc.IH) simp
  show ?case
    by (subst waitRunning.simps) (simp add: step split: option.splits sum.splits)
qed

lemma Start_already_started: "started s \<Longrightarrow> Start r ctx s = Some (Some AlreadyStarted, s)"
  by (simp add: Start_def)

lemma Start_error:
  assumes "\<not> started s" and "Start r ctx s = Some (Some e, s')"
  shows "\<not> started s' \<and> start_failure e"
  using assms
  by (auto simp: Start_def Let_def called_def start_failure_def
      split: sum.splits option.splits dest: waitRunning_error)

lemma Start_nil:
  assumes "Start r ctx s = Some (None, s')"
  shows "\<not> started s \<and> started s'"
  using assms
  by (auto simp: Start_def Let_def split: if_splits sum.splits option.splits)

text \<open>
  With a backend that never gets running and a context that is never done, the wait
  loop does not end, and neither does \<^verbatim>\<open>Start\<close>.
\<close>

lemma waitRunning_never:
  assumes "never_running r" and "\<forall>k. ctx k = None" and "BackendState status \<noteq> Running"
  shows "waitRunning r ctx k status = None"
proof (rule ccontr)
  assume "waitRunning r ctx k status \<noteq> None"
  then obtain res where "waitRunning r ctx k status = Some res" by auto
  then have "\<not> (never_running r \<and> (\<forall>k. ctx k = None) \<and> BackendState status \<noteq> Running)"
  proof (induction rule: waitRunning.raw_induct [rotated 1, consumes 1, case_names step])
    case (step wait r ctx k status res)
    show ?case
    proof
      assume a: "never_running r \<and> (\<forall>k. ctx k = None) \<and> BackendState status \<noteq> Running"
      then obtain st where st: "StatusWithoutPeers_result r (Suc k) = Inr st"
        "BackendState st \<noteq> Running"
        unfolding never_running_def by blast
      with a step(2) have "wait r ctx (Suc k) st = Some res" by simp
      from step(1) [OF this] a st(2) show False by simp
    qed
  qed
  with assms show False by simp
qed

lemma Start_never:
  assumes "\<not> started s" and "\<exists>lc. LocalClient_result r = Inr lc" and "never_running r"
    and "\<forall>k. ctx k = None"
  shows "Start r ctx s = None"
proof -
  from assms(2) obtain lc where lc: "LocalClient_result r = Inr lc" by blast
  from assms(3) obtain st where st: "StatusWithoutPeers_result r 0 = Inr st"
    "BackendState st \<noteq> Running"
    unfolding never_running_def by blast
  from waitRunning_never [OF assms(3,4) st(2)] have "waitRunning r ctx 0 st = None" .
  with assms(1) lc st(1) show ?thesis by (simp add: Start_def)
qed

text \<open>
  \<^verbatim>\<open>Start\<close> returns if at some pass \<open>d\<close> of the wait loop the context is done,
  the next status call fails, or it reports \<^verbatim>\<open>Running\<close>.
\<close>

lemma Start_returns:
  assumes "ctx d \<noteq> None
           \<or> (\<exists>m. StatusWithoutPeers_result r (Suc d) = Inl m)
           \<or> (\<exists>st. StatusWithoutPeers_result r (Suc d) = Inr st \<and> BackendState st = Running)"
  shows "\<exists>res s'. Start r ctx s = Some (res, s')"
proof (cases "started s")
  case True
  then show ?thesis by (simp add: Start_def)
next
  case False
  show ?thesis
  proof (cases "LocalClient_result r")
    case (Inl m)
    with False show ?thesis by (simp add: Start_def)
  next
    case (Inr lc)
    show ?thesis
    proof (cases "StatusWithoutPeers_result r 0")
      case (Inl m)
      with False Inr show ?thesis by (simp add: Start_def)
    next
      case status0: (Inr status)
      from assms waitRunning_returns [of ctx 0 d r status]
      obtain res where "waitRunning r ctx 0 status = Some res" by auto
      with False Inr status0 show ?thesis
        by (cases res) (simp_all add: Start_def)
    qed
  qed
qed

text \<open>
  Claim C8: on a server that is already started, \<^verbatim>\<open>Start\<close> returns an error and
  leaves the server as it was. On a server that is not started, every error return
  (local client, status call, context done) leaves \<^verbatim>\<open>started\<close> false, a nil return
  sets it, and so \<^verbatim>\<open>started\<close> becomes true only when \<^verbatim>\<open>Start\<close> returns nil.
\<close>

theorem Start_started_flag:
  "(started s \<longrightarrow> Start r ctx s = Some (Some AlreadyStarted, s)) \<and>
   (\<forall>e s'. \<not> started s \<and> Start r ctx s = Some (Some e, s') \<longrightarrow>
        \<not> started s' \<and> start_failure e) \<and>
   (\<forall>s'. Start r ctx s = Some (None, s') \<longrightarrow> \<not> started s \<and> started s') \<and>
   (\<forall>res s'. \<not> started s \<and> Start r ctx s = Some (res, s') \<and> started s' \<longrightarrow> res = None)"
proof (intro conjI allI impI)
  assume "started s"
  then show "Start r ctx s = Some (Some AlreadyStarted, s)" by (rule Start_already_started)
next
  fix e s' assume "\<not> started s \<and> Start r ctx s = Some (Some e, s')"
  then show "\<not> started s'" and "start_failure e" using Start_error by blast+
next
  fix s' assume "Start r ctx s = Some (None, s')"
  then show "\<not> started s" and "started s'" using Start_nil by blast+
next
  fix res s' assume a: "\<not> started s \<and> Start r ctx s = Some (res, s') \<and> started s'"
  show "res = None"
  proof (cases res)
    case None then show ?thesis .
  next
    case (Some e)
    with a Start_error [of s r ctx e s'] show ?thesis by simp
  qed
qed

text \<open>The four returns of \<^verbatim>\<open>Start\<close> on the concrete backends.\<close>

lemma Start_good: "Start tsnet_good Background fresh_server = Some (None, running_server)"
  by (simp add: Start_def run_defs waitRunning.simps)

lemma Start_status_fails:
  "Start tsnet_status_fails Background fresh_server =
     Some (Some (StatusFailed ''connection refused''),
           (called LocalClientCall fresh_server)\<lparr>localClient := TsnetClient\<rparr>)"
  by (simp add: Start_def run_defs waitRunning.simps)

lemma Start_no_client:
  "Start tsnet_no_client Background fresh_server =
     Some (Some (LocalClientFailed ''tsnet: no auth key''), called LocalClientCall fresh_server)"
  by (simp add: Start_def run_defs)

lemma Start_cancelled:
  "Start tsnet_stuck ctx_cancelled fresh_server =
     Some (Some (ContextDone Canceled),
           (called LocalClientCall fresh_server)\<lparr>localClient := TsnetClient\<rparr>)"
  by (simp add: Start_def run_defs waitRunning.simps)

text \<open>
  Claim C8 at a started server, and at a fresh server with a backend that gets running,
  one without a local client, one whose status call fails, and a cancelled context.
\<close>

theorem Start_started_flag_witness:
  "started running_server \<and> \<not> started fresh_server
   \<and> Start tsnet_good Background running_server = Some (Some AlreadyStarted, running_server)
   \<and> Start tsnet_good Background fresh_server = Some (None, running_server)
   \<and> \<not> started (called LocalClientCall fresh_server)
   \<and> \<not> started ((called LocalClientCall fresh_server)\<lparr>localClient := TsnetClient\<rparr>)
   \<and> start_failure (LocalClientFailed ''tsnet: no auth key'')
   \<and> start_failure (StatusFailed ''connection refused'')
   \<and> start_failure (ContextDone Canceled)"
proof -
  have s1: "started running_server" and s0: "\<not> started fresh_server"
    by (simp_all add: run_defs)
  note t1 = Start_started_flag [of running_server tsnet_good Background]
  note t2 = Start_started_flag [of fresh_server tsnet_good Background]
  note t3 = Start_started_flag [of fresh_server tsnet_no_client Background]
  note t4 = Start_started_flag [of fresh_server tsnet_status_fails Background]
  note t5 = Start_started_flag [of fresh_server tsnet_stuck ctx_cancelled]
  from t1 s1 have "Start tsnet_good Background running_server = Some (Some AlreadyStarted, running_server)"
    by blast
  moreover from t2 Start_good have "started running_server" by blast
  moreover from t3 s0 Start_no_client
  have "\<not> started (called LocalClientCall fresh_server)"
    "start_failure (LocalClientFailed ''tsnet: no auth key'')" by blast+
  moreover from t4 s0 Start_status_fails
  have "\<not> started ((called LocalClientCall fresh_server)\<lparr>localClient := TsnetClient\<rparr>)"
    "start_failure (StatusFailed ''connection refused'')" by blast+
  moreover from t5 s0 Start_cancelled
  have "start_failure (ContextDone Canceled)" by blast
  ultimately show ?thesis using s0 Start_good by simp
qed

subsection \<open>The tsnet wrapper: \<^verbatim>\<open>Close\<close>\<close>

lemma Close_not_started: "\<not> started s \<Longrightarrow> Close c s = (None, s)"
  by (simp add: Close_def)

lemma Close_nil: "Close c s = (None, s') \<Longrightarrow> \<not> started s'"
  by (auto simp: Close_def Let_def called_def split: if_splits option.splits)

text \<open>
  Claim C9: \<^verbatim>\<open>Close\<close> on a server that is not started (never started, or closed
  before) returns nil and leaves the whole server unchanged, the tsnet server and the
  calls recorded on it included. A \<^verbatim>\<open>Close\<close> that returns nil leaves \<^verbatim>\<open>started\<close>
  false, so a second \<^verbatim>\<open>Close\<close> returns nil and changes nothing, whatever the tsnet
  server would answer. On a started server whose tsnet server closes without error,
  \<^verbatim>\<open>Close\<close> calls it once and clears \<^verbatim>\<open>started\<close>.
\<close>

theorem Close_idempotent:
  "(\<not> started s \<longrightarrow> Close c s = (None, s)) \<and>
   (started s \<longrightarrow> Close None s = (None, (called CloseCall s)\<lparr>started := False\<rparr>)) \<and>
   (\<forall>s'. Close c s = (None, s') \<longrightarrow> \<not> started s' \<and> (\<forall>c'. Close c' s' = (None, s')))"
proof (intro conjI allI impI)
  assume "\<not> started s"
  then show "Close c s = (None, s)" by (rule Close_not_started)
next
  assume "started s"
  then show "Close None s = (None, (called CloseCall s)\<lparr>started := False\<rparr>)"
    by (simp add: Close_def)
next
  fix s' assume "Close c s = (None, s')"
  then show "\<not> started s'" by (rule Close_nil)
next
  fix s' c' assume "Close c s = (None, s')"
  then have "\<not> started s'" by (rule Close_nil)
  then show "Close c' s' = (None, s')" by (rule Close_not_started)
qed

text \<open>
  Claim C9 at a fresh server and at a running one: the second \<^verbatim>\<open>Close\<close> records no
  further call on the tsnet server.
\<close>

theorem Close_idempotent_witness:
  "Close (Some ''use of closed connection'') fresh_server = (None, fresh_server)
   \<and> Close None running_server = (None, (called CloseCall running_server)\<lparr>started := False\<rparr>)
   \<and> tsnet_calls (server ((called CloseCall running_server)\<lparr>started := False\<rparr>))
        = [LocalClientCall, CloseCall]
   \<and> Close (Some ''use of closed connection'') ((called CloseCall running_server)\<lparr>started := False\<rparr>)
        = (None, (called CloseCall running_server)\<lparr>started := False\<rparr>)"
proof -
  have s1: "started running_server" and s0: "\<not> started fresh_server"
    by (simp_all add: run_defs)
  note t0 = Close_idempotent [of fresh_server "Some ''use of closed connection''"]
  note t1 = Close_idempotent [of running_server None]
  from t0 s0 have a: "Close (Some ''use of closed connection'') fresh_server = (None, fresh_server)"
    by blast
  from t1 s1 have b: "Close None running_server = (None, (called CloseCall running_server)\<lparr>started := False\<rparr>)"
    by blast
  with t1 have c: "Close (Some ''use of closed connection'') ((called CloseCall running_server)\<lparr>started := False\<rparr>)
        = (None, (called CloseCall running_server)\<lparr>started := False\<rparr>)"
    by blast
  have d: "tsnet_calls (server ((called CloseCall running_server)\<lparr>started := False\<rparr>))
        = [LocalClientCall, CloseCall]"
    by (simp add: run_defs)
  from a b c d show ?thesis by simp
qed


subsection \<open>The exit code of dnsmon\<close>

text \<open>
  What one run of the process ends in. It exits with code 5 when \<^verbatim>\<open>Load\<close> fails,
  when \<^verbatim>\<open>New\<close> fails, and when \<^verbatim>\<open>Start\<close> returns an error; it exits with code 0
  when the startup has completed and a signal arrives, whatever \<^verbatim>\<open>Close\<close> returns.
  It does not exit while no signal has arrived after the startup, nor when \<^verbatim>\<open>Start\<close>
  does not return. It has no other exit code.
\<close>

lemma main_exit_code:
  "(\<forall>e. Load pd (process_env w) = Inl e \<longrightarrow> main pd w = Some 5) \<and>
   (\<forall>cfg e. Load pd (process_env w) = Inr cfg
        \<and> New (MkdirAll_result w) (main_ServerConfig cfg) = Inl e \<longrightarrow> main pd w = Some 5) \<and>
   (\<forall>cfg ts e ts'. Load pd (process_env w) = Inr cfg
        \<and> New (MkdirAll_result w) (main_ServerConfig cfg) = Inr ts
        \<and> Start (tsnet w) Background ts = Some (Some e, ts') \<longrightarrow> main pd w = Some 5) \<and>
   (\<forall>cfg ts ts' sig. Load pd (process_env w) = Inr cfg
        \<and> New (MkdirAll_result w) (main_ServerConfig cfg) = Inr ts
        \<and> Start (tsnet w) Background ts = Some (None, ts')
        \<and> sigChan w = Some sig \<longrightarrow> main pd w = Some 0) \<and>
   (\<forall>cfg ts ts'. Load pd (process_env w) = Inr cfg
        \<and> New (MkdirAll_result w) (main_ServerConfig cfg) = Inr ts
        \<and> Start (tsnet w) Background ts = Some (None, ts')
        \<and> sigChan w = None \<longrightarrow> main pd w = None) \<and>
   (\<forall>cfg ts. Load pd (process_env w) = Inr cfg
        \<and> New (MkdirAll_result w) (main_ServerConfig cfg) = Inr ts
        \<and> Start (tsnet w) Background ts = None \<longrightarrow> main pd w = None) \<and>
   (\<forall>c. main pd w = Some c \<longrightarrow> c = 0 \<or> c = 5)"
proof (intro conjI allI impI)
  fix e assume "Load pd (process_env w) = Inl e"
  then show "main pd w = Some 5" by (simp add: main_def)
next
  fix cfg e
  assume "Load pd (process_env w) = Inr cfg
        \<and> New (MkdirAll_result w) (main_ServerConfig cfg) = Inl e"
  then show "main pd w = Some 5" by (simp add: main_def)
next
  fix cfg ts e ts'
  assume "Load pd (process_env w) = Inr cfg
        \<and> New (MkdirAll_result w) (main_ServerConfig cfg) = Inr ts
        \<and> Start (tsnet w) Background ts = Some (Some e, ts')"
  then show "main pd w = Some 5" by (simp add: main_def)
next
  fix cfg ts ts' sig
  assume "Load pd (process_env w) = Inr cfg
        \<and> New (MkdirAll_result w) (main_ServerConfig cfg) = Inr ts
        \<and> Start (tsnet w) Background ts = Some (None, ts')
        \<and> sigChan w = Some sig"
  then show "main pd w = Some 0" by (simp add: main_def split: prod.splits option.splits)
next
  fix cfg ts ts'
  assume "Load pd (process_env w) = Inr cfg
        \<and> New (MkdirAll_result w) (main_ServerConfig cfg) = Inr ts
        \<and> Start (tsnet w) Background ts = Some (None, ts')
        \<and> sigChan w = None"
  then show "main pd w = None" by (simp add: main_def)
next
  fix cfg ts
  assume "Load pd (process_env w) = Inr cfg
        \<and> New (MkdirAll_result w) (main_ServerConfig cfg) = Inr ts
        \<and> Start (tsnet w) Background ts = None"
  then show "main pd w = None" by (simp add: main_def)
next
  fix c assume "main pd w = Some c"
  then show "c = 0 \<or> c = 5"
    by (auto simp: main_def split: sum.splits option.splits prod.splits)
qed

text \<open>The startup of the process in the environment that sets only \<^verbatim>\<open>TS_AUTHKEY\<close>.\<close>

lemma Load_minimal:
  "Load sample_parser env_minimal =
     Inr \<lparr> Tailscale =
             \<lparr> AuthKey = ''tskey-auth-1'',
               Hostname = ''skopos-dnsmon'',
               StateDir = ''/home/dnsmon/.local/share/skopos/tsnet'' \<rparr>,
           HealthCheck =
             \<lparr> Interval = 20000000000, Timeout = 5000000000, UnhealthyThreshold = 1 \<rparr>,
           DNS = \<lparr> UpdateTimeout = 10000000000 \<rparr>,
           Development = False \<rparr>"
  by (simp add: env_defs Load_def helper_defs Second_def)

lemma main_startup_minimal:
  "\<exists>cfg ts. Load sample_parser env_minimal = Inr cfg
      \<and> New None (main_ServerConfig cfg) = Inr ts
      \<and> (\<exists>ts'. Start tsnet_good Background ts = Some (None, ts'))
      \<and> (\<exists>ts'. Start tsnet_status_fails Background ts = Some (Some (StatusFailed ''connection refused''), ts'))
      \<and> (\<exists>ts'. Start tsnet_no_client Background ts = Some (Some (LocalClientFailed ''tsnet: no auth key''), ts'))"
  by (simp add: Load_minimal New_def main_ServerConfig_def Start_def run_defs waitRunning.simps)

text \<open>
  Six runs that exit: a clean shutdown on \<^verbatim>\<open>SIGTERM\<close>, a missing
  \<^verbatim>\<open>TS_AUTHKEY\<close>, a state directory that cannot be created, a tsnet server without a
  local client, a failing status call, and a shutdown in which \<^verbatim>\<open>Close\<close> fails.
\<close>

lemma main_exit_code_runs:
  "main sample_parser (world_of env_minimal None tsnet_good (Some SIGTERM)) = Some 0
   \<and> main sample_parser (world_of env_no_key None tsnet_good (Some SIGTERM)) = Some 5
   \<and> main sample_parser (world_of env_minimal (Some ''permission denied'') tsnet_good (Some SIGTERM)) = Some 5
   \<and> main sample_parser (world_of env_minimal None tsnet_no_client (Some SIGTERM)) = Some 5
   \<and> main sample_parser (world_of env_minimal None tsnet_status_fails (Some SIGTERM)) = Some 5
   \<and> main sample_parser world_close_fails = Some 0"
proof -
  obtain cfg ts t1 t2 t3 where
    cfg: "Load sample_parser env_minimal = Inr cfg"
    and ts: "New None (main_ServerConfig cfg) = Inr ts"
    and t1: "Start tsnet_good Background ts = Some (None, t1)"
    and t2: "Start tsnet_status_fails Background ts = Some (Some (StatusFailed ''connection refused''), t2)"
    and t3: "Start tsnet_no_client Background ts = Some (Some (LocalClientFailed ''tsnet: no auth key''), t3)"
    using main_startup_minimal by blast
  have nokey: "Load sample_parser env_no_key = Inl AuthKeyRequired"
    by (simp add: env_defs Load_def helper_defs)
  have mk: "New (Some ''permission denied'') (main_ServerConfig cfg) = Inl (MkdirFailed ''permission denied'')"
    by (simp add: New_def)
  have "main sample_parser (world_of env_minimal None tsnet_good (Some SIGTERM)) = Some 0"
    using main_exit_code [of sample_parser "world_of env_minimal None tsnet_good (Some SIGTERM)"]
      cfg ts t1 by (simp add: world_of_def)
  moreover have "main sample_parser (world_of env_no_key None tsnet_good (Some SIGTERM)) = Some 5"
    using main_exit_code [of sample_parser "world_of env_no_key None tsnet_good (Some SIGTERM)"]
      nokey by (simp add: world_of_def)
  moreover have "main sample_parser (world_of env_minimal (Some ''permission denied'') tsnet_good (Some SIGTERM)) = Some 5"
    using main_exit_code [of sample_parser "world_of env_minimal (Some ''permission denied'') tsnet_good (Some SIGTERM)"]
      cfg mk by (simp add: world_of_def)
  moreover have "main sample_parser (world_of env_minimal None tsnet_no_client (Some SIGTERM)) = Some 5"
    using main_exit_code [of sample_parser "world_of env_minimal None tsnet_no_client (Some SIGTERM)"]
      cfg ts t3 by (simp add: world_of_def)
  moreover have "main sample_parser (world_of env_minimal None tsnet_status_fails (Some SIGTERM)) = Some 5"
    using main_exit_code [of sample_parser "world_of env_minimal None tsnet_status_fails (Some SIGTERM)"]
      cfg ts t2 by (simp add: world_of_def)
  moreover have "main sample_parser world_close_fails = Some 0"
    using main_exit_code [of sample_parser world_close_fails]
      cfg ts t1 by (simp add: world_close_fails_def world_of_def)
  ultimately show ?thesis by simp
qed

text \<open>
  The server that \<^verbatim>\<open>New\<close> returns is not started, so \<^verbatim>\<open>main\<close> always enters the
  wait loop of \<^verbatim>\<open>Start\<close>. With a backend that never gets running the process never
  exits, whether or not a signal is delivered: \<^verbatim>\<open>main\<close> passes \<^verbatim>\<open>Start\<close> a context
  that nothing cancels, and reads \<^verbatim>\<open>sigChan\<close> only after \<^verbatim>\<open>Start\<close> has returned.
\<close>

lemma New_not_started: "New mk c = Inr ts \<Longrightarrow> \<not> started ts"
  by (auto simp: New_def split: option.splits)

lemma main_never_exits:
  assumes "Load pd (process_env w) = Inr cfg"
    and "New (MkdirAll_result w) (main_ServerConfig cfg) = Inr ts"
    and "\<exists>lc. LocalClient_result (tsnet w) = Inr lc"
    and "never_running (tsnet w)"
  shows "main pd w = None"
proof -
  have "Start (tsnet w) Background ts = None"
    using New_not_started [OF assms(2)] assms(3,4)
    by (intro Start_never) (simp_all add: Background_def)
  with assms(1,2) show ?thesis by (simp add: main_def)
qed

lemma never_running_stuck: "never_running tsnet_stuck"
  by (simp add: never_running_def tsnet_stuck_def status_starting_def Running_def)

text \<open>
  Claim C7: the process exits with code 0 after a termination signal, and with a
  non-zero code when the Tailscale capability cannot be started. The code does not do
  that when the backend never reports \<^verbatim>\<open>Running\<close>: with \<^verbatim>\<open>TS_AUTHKEY\<close> set, a
  state directory that can be created, a local client, and every status call answering
  \<^verbatim>\<open>Starting\<close>, the process has no exit code at all, although \<^verbatim>\<open>SIGTERM\<close> is
  delivered. The comment in \<^verbatim>\<open>main\<close> calls its context one that listens for
  termination signals, and \<^verbatim>\<open>Start\<close> returns the context's error once it is done;
  \<^verbatim>\<open>main\<close> never connects the two.
\<close>

theorem main_stuck_backend_never_exits:
  "main sample_parser (world_of env_minimal None tsnet_stuck (Some SIGTERM)) = None"
proof -
  obtain cfg where cfg: "Load sample_parser env_minimal = Inr cfg"
    using Load_with_key [of env_minimal sample_parser] by (auto simp: env_defs)
  obtain ts where ts: "New None (main_ServerConfig cfg) = Inr ts"
    by (simp add: New_def)
  show ?thesis
    using cfg ts never_running_stuck
    by (intro main_never_exits [where cfg = cfg and ts = ts])
      (simp_all add: world_of_def tsnet_stuck_def)
qed

end
